theory Spec2Isabelle
  imports Complex_Main "HOL-Library.Word" "HOL-Library.Log_Nat"
begin

section \<open>Debt Tracker: the debt and payment lifecycle\<close>

text \<open>
  A shallow embedding of the lifecycle code of the Debt Tracker application:
  the models \<open>Debt\<close> and \<open>Payment\<close> of \<open>myapp/models.py\<close>, the form
  \<open>DebtForm\<close> of \<open>myapp/forms.py\<close> and the request handlers of
  \<open>myapp/views.py\<close> that create debts and record, confirm and reject payments.

  Modelling decisions.
  \<^item> Money is a rational number: the exact value of the \<open>Decimal\<close> or of the float that
    the source holds. \<open>Debt.balance\<close> converts both columns to floats and subtracts them;
    the model rounds each of the three results as binary64 arithmetic does (\<open>float_of\<close>).
    The sums \<open>float(debt.paid_amount) + amount\<close>, which are written to a column of two
    decimals, are exact sums in the model; the quantisation of a column at save time is
    outside the model.
  \<^item> The database is a record of tables, passed in and returned. A row is addressed by
    its primary key; a foreign key is the key of the row it points to.
  \<^item> \<open>timezone.now()\<close>, the bytes drawn by \<open>secrets.token_hex\<close> and the flag
    \<open>REPORTLAB_AVAILABLE\<close> are inputs (the record \<open>env\<close>).
  \<^item> A handler returns its response together with the new state. A branch that reports
    with \<open>messages.error\<close> (or raises \<open>Http404\<close>) returns \<open>Inl\<close> of a failure kind:
    \<open>get_object_or_404\<close> gives \<open>NotFound\<close>; a role, ownership or superuser test gives
    \<open>Forbidden\<close>; a test of a status or of the payment session gives \<open>InvalidState\<close>;
    a test of an amount, a file, a payment method or a form gives \<open>ValidationError\<close>.
    Every other branch returns \<open>Inr\<close> of the page rendered or redirected to.
  \<^item> \<open>login_required\<close> is taken as passed: the actor is a logged-in user.
\<close>

subsection \<open>Data model (myapp/models.py)\<close>

datatype role = Creditor | Debtor | Admin

record user =
  uid :: nat
  username :: string
  full_name :: string
  account_type :: role
  is_superuser :: bool

record upload =
  file_name :: string
  file_size :: nat

datatype debt_type = Money | Product

text \<open>\<open>Debt.STATUS_CHOICES\<close>.\<close>

datatype debt_status =
  PendingConfirmation | Active | AwaitingConfirmation | Rejected | Paid

record debt =
  creditor_id :: nat
  debtor_id :: nat
  dtype :: debt_type
  amount :: rat
  product_name :: string
  debt_proof :: "upload option"
  creditor_proof :: "upload option"
  payment_proof :: "upload option"
  paid_amount :: rat
  status :: debt_status
  date_paid :: "nat option"

datatype payment_method = Cash | GCash

text \<open>
  \<open>Payment.PAYMENT_STATUS_CHOICES\<close>, and \<open>PaymentPendingConfirmation\<close> for the string
  \<open>'pending_confirmation'\<close> that the views store in \<open>Payment.status\<close> although the
  choices do not list it.
\<close>

datatype payment_status =
  PendingDebtorProof | PendingCreditorProof | PaymentPendingConfirmation
  | Completed | PaymentRejected

text \<open>
  The fields of \<open>Payment\<close>. The prefix \<open>p_\<close> marks \<open>amount\<close>, \<open>status\<close> and
  \<open>creditor_proof\<close>, which \<open>Debt\<close> has too, and \<open>method\<close>.
\<close>

record payment =
  debt_id :: nat
  payer_id :: nat
  p_amount :: rat
  p_method :: payment_method
  debtor_proof :: "upload option"
  p_creditor_proof :: "upload option"
  payment_date :: "nat option"
  p_status :: payment_status
  transaction_id :: string
  receipt_file :: "string option"
  verified_at :: "nat option"

record notification =
  n_user :: nat
  notification_type :: string
  related_debt :: "nat option"

record store =
  users :: "user list"
  debts :: "nat \<rightharpoonup> debt"
  payments :: "nat \<rightharpoonup> payment"
  notifications :: "notification list"
  next_debt_id :: nat
  next_payment_id :: nat

record env =
  now :: nat
  token :: "8 word list"
  reportlab_available :: bool

datatype failure = NotFound | Forbidden | InvalidState | ValidationError

datatype response = Redirect string | Render string

datatype http_method = GET | POST

text \<open>
  A posted amount: the field is missing from the form, or \<open>float()\<close> raises on its
  text, or \<open>float()\<close> returns a number.
\<close>

datatype amount_field = Absent | Unparsable | Parsed rat

text \<open>The keys the payment views keep in the debtor's session.\<close>

record session =
  payment_debt_id :: "nat option"
  payment_amount :: "rat option"
  payment_method :: "string option"

subsection \<open>Debt\<close>

text \<open>
  Python's \<open>float(x)\<close>, and the rounding of every float operation: the binary64 number
  nearest to \<open>x\<close>, ties to the even significand. A number \<open>x\<close> with
  \<open>2^e \<le> |x| < 2^(e+1)\<close> is rounded to a multiple of \<open>2^(e-52)\<close>. The exponent is not
  bounded: the amounts of a column of ten digits are far from overflow and underflow.
\<close>

definition floor_log2 :: "rat \<Rightarrow> int" where
  "floor_log2 x = (if 1 \<le> x then bitlen \<lfloor>x\<rfloor> - 1 else - bitlen (\<lceil>1 / x\<rceil> - 1))"

definition round_half_even :: "rat \<Rightarrow> int" where
  "round_half_even y =
     (let f = \<lfloor>y\<rfloor>; r = y - of_int f
      in if r < 1 / 2 then f else if 1 / 2 < r then f + 1 else if even f then f else f + 1)"

definition float_of :: "rat \<Rightarrow> rat" where
  "float_of x =
     (if x = 0 then 0
      else let u = 2 powi (floor_log2 \<bar>x\<bar> - 52)
           in of_int (round_half_even (x / u)) * u)"

text \<open>\<open>Debt.balance\<close>: \<open>max(0, float(self.amount) - float(self.paid_amount))\<close>.\<close>

definition balance :: "debt \<Rightarrow> rat" where
  "balance d = max 0 (float_of (float_of (amount d) - float_of (paid_amount d)))"

text \<open>
  \<open>Debt.update_payment_status\<close>. The row is saved only in the branch that returns
  \<open>True\<close>; the second component says whether it was.
\<close>

definition update_payment_status :: "env \<Rightarrow> debt \<Rightarrow> debt \<times> bool" where
  "update_payment_status e d =
     (if balance d \<le> 0 \<and> status d = Active
      then (d\<lparr>status := Paid, date_paid := Some (now e)\<rparr>, True)
      else (d, False))"

subsection \<open>Payment\<close>

text \<open>\<open>secrets.token_hex(n).upper()\<close>: two upper-case hexadecimal digits for each byte.\<close>

definition hex_digit :: "nat \<Rightarrow> char" where
  "hex_digit n = ''0123456789ABCDEF'' ! (n mod 16)"

fun token_hex_upper :: "8 word list \<Rightarrow> string" where
  "token_hex_upper [] = []"
| "token_hex_upper (b # bs) =
     hex_digit (unat b div 16) # hex_digit (unat b mod 16) # token_hex_upper bs"

text \<open>
  The constructor \<open>Payment(debt=..., payer=..., amount=..., method=...)\<close> with every
  other field at its declared default: \<open>status\<close> is \<open>'completed'\<close>, \<open>transaction_id\<close>
  is the empty string, the files and the dates are null. A caller that passes further
  keyword arguments overrides these fields.
\<close>

definition Payment_init :: "nat \<Rightarrow> nat \<Rightarrow> rat \<Rightarrow> payment_method \<Rightarrow> payment" where
  "Payment_init d u a m =
     \<lparr> debt_id = d, payer_id = u, p_amount = a, p_method = m,
       debtor_proof = None, p_creditor_proof = None, payment_date = None,
       p_status = Completed, transaction_id = [], receipt_file = None,
       verified_at = None \<rparr>"

text \<open>\<open>Payment.save\<close>, up to the call of \<open>super().save\<close>, which writes the row.\<close>

definition Payment_save :: "env \<Rightarrow> payment \<Rightarrow> payment" where
  "Payment_save e p =
     (let p1 = (if transaction_id p = []
                then p\<lparr>transaction_id := ''TXN-'' @ token_hex_upper (token e)\<rparr> else p);
          p2 = (if p_status p1 = Completed \<and> payment_date p1 = None
                then p1\<lparr>payment_date := Some (now e)\<rparr> else p1);
          p3 = (if p_status p2 = Completed \<and> verified_at p2 = None
                then p2\<lparr>verified_at := Some (now e)\<rparr> else p2)
      in p3)"

text \<open>\<open>Payment.objects.create(...)\<close>: save a new row under a fresh primary key.\<close>

definition Payment_objects_create :: "env \<Rightarrow> payment \<Rightarrow> store \<Rightarrow> nat \<times> store" where
  "Payment_objects_create e p db =
     (let pid = next_payment_id db
      in (pid, db\<lparr>payments := (payments db)(pid \<mapsto> Payment_save e p),
                  next_payment_id := Suc pid\<rparr>))"

text \<open>\<open>Notification.objects.create(user=..., notification_type=..., related_debt=...)\<close>.\<close>

definition Notification_objects_create :: "nat \<Rightarrow> string \<Rightarrow> nat \<Rightarrow> store \<Rightarrow> store" where
  "Notification_objects_create u t d db =
     db\<lparr>notifications :=
          \<lparr>n_user = u, notification_type = t, related_debt = Some d\<rparr> # notifications db\<rparr>"

subsection \<open>Creditor: mark a debt as paid (views.mark\_as\_paid)\<close>

definition mark_as_paid ::
  "env \<Rightarrow> user \<Rightarrow> http_method \<Rightarrow> nat \<Rightarrow> amount_field \<Rightarrow> upload option \<Rightarrow> store
     \<Rightarrow> (failure + response) \<times> store" where
  "mark_as_paid e actor m i posted_amount posted_proof db =
     (if account_type actor \<noteq> Creditor then (Inl Forbidden, db)
      else case debts db i of
        None \<Rightarrow> (Inl NotFound, db)
      | Some d \<Rightarrow>
          if creditor_id d \<noteq> uid actor then (Inl Forbidden, db)
          else if m = POST then
            (case posted_proof of
               None \<Rightarrow> (Inl ValidationError, db)
             | Some proof \<Rightarrow>
                 let a0 = (case posted_amount of
                             Absent \<Rightarrow> balance d
                           | Unparsable \<Rightarrow> balance d
                           | Parsed x \<Rightarrow> x);
                     a = (if a0 > balance d then balance d else a0);
                     d1 = d\<lparr>paid_amount := paid_amount d + a, payment_proof := Some proof\<rparr>;
                     d2 = (if balance d1 \<le> 0
                           then d1\<lparr>status := Paid, date_paid := Some (now e)\<rparr> else d1);
                     db1 = db\<lparr>debts := (debts db)(i \<mapsto> d2)\<rparr>;
                     (pid, db2) = Payment_objects_create e
                        ((Payment_init i (debtor_id d2) a Cash)
                           \<lparr>p_status := Completed, payment_date := Some (now e),
                            verified_at := Some (now e), p_creditor_proof := Some proof\<rparr>) db1;
                     db3 = Notification_objects_create (debtor_id d2) ''payment_confirmed'' i db2
                 in (Inr (Redirect ''myapp:creditor_dashboard''), db3))
          else (Inr (Render ''mark_as_paid.html''), db))"

subsection \<open>Debtor: add a debt (forms.DebtForm, views.add\_debt)\<close>

text \<open>
  What \<open>DebtForm\<close> receives, after the conversion of each posted field by the
  framework: \<open>form_type\<close> and \<open>form_amount\<close> are \<open>None\<close> when the field is missing or
  fails the validation that the framework derives from the model field.
\<close>

record debt_form =
  form_creditor_username :: string
  form_type :: "debt_type option"
  form_amount :: "rat option"
  form_product_name :: string
  form_debt_proof :: "upload option"

text \<open>
  \<open>User.objects.get(username=...)\<close>; \<open>None\<close> for \<open>User.DoesNotExist\<close>. The column is
  unique, so at most one row matches.
\<close>

definition User_objects_get :: "store \<Rightarrow> string \<Rightarrow> user option" where
  "User_objects_get db n = find (\<lambda>u. username u = n) (users db)"

text \<open>\<open>DebtForm.clean_creditor_username\<close>.\<close>

definition clean_creditor_username :: "store \<Rightarrow> string \<Rightarrow> failure + string" where
  "clean_creditor_username db n =
     (case User_objects_get db n of
        None \<Rightarrow> Inl ValidationError
      | Some creditor \<Rightarrow>
          if account_type creditor \<noteq> Creditor then Inl ValidationError else Inr n)"

text \<open>\<open>str.lower\<close> on ASCII letters, and \<open>name.split('.')[-1]\<close>.\<close>

definition lower_char :: "char \<Rightarrow> char" where
  "lower_char c =
     (if of_char c \<ge> (65::nat) \<and> of_char c \<le> (90::nat) then char_of (of_char c + (32::nat))
      else c)"

definition last_segment :: "string \<Rightarrow> string" where
  "last_segment s = rev (takeWhile (\<lambda>c. c \<noteq> CHR ''.'') (rev s))"

definition allowed_extensions :: "string list" where
  "allowed_extensions =
     [''.jpg'', ''.jpeg'', ''.png'', ''.gif'', ''.pdf'', ''.bmp'', ''.webp'']"

text \<open>\<open>DebtForm.clean_debt_proof\<close>.\<close>

definition clean_debt_proof :: "upload option \<Rightarrow> failure + upload option" where
  "clean_debt_proof proof =
     (case proof of
        None \<Rightarrow> Inr None
      | Some f \<Rightarrow>
          if file_size f > 10 * 1024 * 1024 then Inl ValidationError
          else if CHR ''.'' # last_segment (map lower_char (file_name f)) \<notin> set allowed_extensions
          then Inl ValidationError
          else Inr (Some f))"

text \<open>
  \<open>DebtForm.clean\<close>, on the type, product name and amount left by the field cleaning;
  it returns the product name of the cleaned data.
\<close>

definition DebtForm_clean :: "debt_type option \<Rightarrow> string \<Rightarrow> rat option \<Rightarrow> failure + string" where
  "DebtForm_clean t pn a =
     (let no_amount = (a = None \<or> a = Some 0) in
      case t of
        Some Money \<Rightarrow> if no_amount then Inl ValidationError else Inr []
      | Some Product \<Rightarrow>
          if pn = [] then Inl ValidationError
          else if no_amount then Inl ValidationError
          else Inr pn
      | None \<Rightarrow> Inr pn)"

text \<open>
  \<open>form.is_valid()\<close> followed by \<open>form.save(commit=False)\<close>: the creditor username and
  the unsaved \<open>Debt\<close> built from the cleaned data, with \<open>paid_amount\<close> and \<open>status\<close> at
  their defaults, or the failure of the form. The creditor username is required and
  holds at most 150 characters, the product name at most 255.
\<close>

definition DebtForm_is_valid :: "store \<Rightarrow> debt_form \<Rightarrow> failure + string \<times> debt" where
  "DebtForm_is_valid db f =
     (let n = form_creditor_username f in
      if n = [] \<or> length n > 150 then Inl ValidationError
      else
       (case clean_creditor_username db n of
          Inl err \<Rightarrow> Inl err
        | Inr n' \<Rightarrow>
           (case form_type f of
              None \<Rightarrow> Inl ValidationError
            | Some t \<Rightarrow>
               (case form_amount f of
                  None \<Rightarrow> Inl ValidationError
                | Some a \<Rightarrow>
                   (if length (form_product_name f) > 255 then Inl ValidationError
                    else
                     (case clean_debt_proof (form_debt_proof f) of
                        Inl err \<Rightarrow> Inl err
                      | Inr proof \<Rightarrow>
                         (case DebtForm_clean (Some t) (form_product_name f) (Some a) of
                            Inl err \<Rightarrow> Inl err
                          | Inr pn \<Rightarrow>
                              Inr (n', \<lparr> creditor_id = 0, debtor_id = 0, dtype = t,
                                         amount = a, product_name = pn, debt_proof = proof,
                                         creditor_proof = None, payment_proof = None,
                                         paid_amount = 0, status = PendingConfirmation,
                                         date_paid = None \<rparr>))))))))"

definition add_debt ::
  "user \<Rightarrow> http_method \<Rightarrow> debt_form \<Rightarrow> store \<Rightarrow> (failure + response) \<times> store" where
  "add_debt actor m f db =
     (if account_type actor \<noteq> Debtor then (Inl Forbidden, db)
      else if m = POST then
        (case DebtForm_is_valid db f of
           Inl err \<Rightarrow> (Inl err, db)
         | Inr (creditor_username, d0) \<Rightarrow>
            (case User_objects_get db creditor_username of
               None \<Rightarrow> (Inl ValidationError, db)
             | Some creditor \<Rightarrow>
                 let d = d0\<lparr>debtor_id := uid actor, creditor_id := uid creditor,
                            status := PendingConfirmation\<rparr>;
                     i = next_debt_id db;
                     db1 = db\<lparr>debts := (debts db)(i \<mapsto> d), next_debt_id := Suc i\<rparr>;
                     db2 = Notification_objects_create (uid creditor) ''new_debt'' i db1
                 in (Inr (Redirect ''myapp:debtor_dashboard''), db2)))
      else (Inr (Render ''add_debt.html''), db))"

subsection \<open>Debtor: pay a debt (views.pay\_debt, views.submit\_payment)\<close>

definition pay_debt :: "user \<Rightarrow> nat \<Rightarrow> store \<Rightarrow> failure + response" where
  "pay_debt actor i db =
     (if account_type actor \<noteq> Debtor then Inl Forbidden
      else case debts db i of
        None \<Rightarrow> Inl NotFound
      | Some d \<Rightarrow>
          if debtor_id d \<noteq> uid actor then Inl Forbidden
          else if status d \<noteq> Active \<and> status d \<noteq> PendingConfirmation then Inl InvalidState
          else if balance d \<le> 0 then Inr (Redirect ''myapp:debtor_dashboard'')
          else Inr (Render ''payment_method.html''))"

text \<open>
  \<open>submit_payment\<close> writes to the session only. The posted method is the stripped text
  of the field \<open>method\<close> (empty when missing); a missing amount reads as \<open>'0'\<close>.
\<close>

definition submit_payment ::
  "user \<Rightarrow> http_method \<Rightarrow> nat \<Rightarrow> string \<Rightarrow> amount_field \<Rightarrow> session \<Rightarrow> store
     \<Rightarrow> (failure + response) \<times> session \<times> store" where
  "submit_payment actor m i posted_method posted_amount sess db =
     (if account_type actor \<noteq> Debtor then (Inl Forbidden, sess, db)
      else case debts db i of
        None \<Rightarrow> (Inl NotFound, sess, db)
      | Some d \<Rightarrow>
          if debtor_id d \<noteq> uid actor then (Inl Forbidden, sess, db)
          else if m = POST then
            (case (case posted_amount of
                     Absent \<Rightarrow> Some 0 | Unparsable \<Rightarrow> None | Parsed x \<Rightarrow> Some x) of
               None \<Rightarrow> (Inl ValidationError, sess, db)
             | Some a \<Rightarrow>
                 if a \<le> 0 then (Inl ValidationError, sess, db)
                 else if a > balance d then (Inl ValidationError, sess, db)
                 else
                   let sess1 = sess\<lparr>payment_debt_id := Some i, payment_amount := Some a,
                                    payment_method := Some posted_method\<rparr>
                   in if posted_method = ''cash''
                      then (Inr (Redirect ''myapp:upload_debtor_proof''), sess1, db)
                      else if posted_method = ''gcash''
                      then (Inr (Redirect ''myapp:gcash_payment''), sess1, db)
                      else (Inl ValidationError, sess1, db))
          else (Inr (Redirect ''myapp:pay_debt''), sess, db))"

subsection \<open>Debtor: the two payment methods (views.gcash\_payment, views.upload\_debtor\_proof)\<close>

text \<open>The three \<open>del request.session[...]\<close> at the end of a payment.\<close>

definition clear_session :: "session \<Rightarrow> session" where
  "clear_session sess =
     sess\<lparr>payment_debt_id := None, payment_amount := None, payment_method := None\<rparr>"

text \<open>
  \<open>payment.receipt_file.save(...)\<close>, which saves the row, followed by \<open>payment.save()\<close>,
  when the PDF library is installed. The content of the file is not modelled.
\<close>

definition attach_receipt :: "env \<Rightarrow> nat \<Rightarrow> store \<Rightarrow> store" where
  "attach_receipt e pid db =
     (if reportlab_available e then
        (case payments db pid of
           None \<Rightarrow> db
         | Some p \<Rightarrow>
             db\<lparr>payments := (payments db)(pid \<mapsto>
                  Payment_save e (Payment_save e (p\<lparr>receipt_file := Some ''receipt.pdf''\<rparr>)))\<rparr>)
      else db)"

text \<open>
  \<open>if not debt_id\<close>: the session key is missing, or it holds 0. \<open>gcash_payment\<close> sends
  an actor who is not a debtor to the creditor dashboard without a message.
\<close>

definition session_debt_id :: "session \<Rightarrow> nat option" where
  "session_debt_id sess =
     (case payment_debt_id sess of
        None \<Rightarrow> None
      | Some i \<Rightarrow> if i = 0 then None else Some i)"

definition gcash_payment ::
  "env \<Rightarrow> user \<Rightarrow> http_method \<Rightarrow> session \<Rightarrow> store
     \<Rightarrow> (failure + response) \<times> session \<times> store" where
  "gcash_payment e actor m sess db =
     (if account_type actor \<noteq> Debtor
      then (Inr (Redirect ''myapp:creditor_dashboard''), sess, db)
      else case session_debt_id sess of
        None \<Rightarrow> (Inl InvalidState, sess, db)
      | Some i \<Rightarrow>
         (case debts db i of
            None \<Rightarrow> (Inl NotFound, sess, db)
          | Some d \<Rightarrow>
              if debtor_id d \<noteq> uid actor then (Inl Forbidden, sess, db)
              else if m = POST then
                (let a = (case payment_amount sess of None \<Rightarrow> balance d | Some x \<Rightarrow> x);
                     (pid, db1) = Payment_objects_create e
                        ((Payment_init i (uid actor) a GCash)
                           \<lparr>p_status := Completed, payment_date := Some (now e),
                            verified_at := Some (now e)\<rparr>) db;
                     d1 = d\<lparr>paid_amount := paid_amount d + a\<rparr>;
                     d2 = (if balance d1 \<le> 0
                           then d1\<lparr>status := Paid, date_paid := Some (now e)\<rparr> else d1);
                     db2 = db1\<lparr>debts := (debts db1)(i \<mapsto> d2)\<rparr>;
                     db3 = attach_receipt e pid db2;
                     db4 = Notification_objects_create (uid actor) ''payment_success'' i db3;
                     db5 = Notification_objects_create (creditor_id d2) ''payment_received'' i db4
                 in (Inr (Redirect ''myapp:payment_success''), clear_session sess, db5))
              else (Inr (Render ''mock_gcash_payment.html''), sess, db)))"

definition upload_debtor_proof ::
  "env \<Rightarrow> user \<Rightarrow> http_method \<Rightarrow> upload option \<Rightarrow> session \<Rightarrow> store
     \<Rightarrow> (failure + response) \<times> session \<times> store" where
  "upload_debtor_proof e actor m posted_proof sess db =
     (if account_type actor \<noteq> Debtor then (Inl Forbidden, sess, db)
      else case session_debt_id sess of
        None \<Rightarrow> (Inl InvalidState, sess, db)
      | Some i \<Rightarrow>
         (case debts db i of
            None \<Rightarrow> (Inl NotFound, sess, db)
          | Some d \<Rightarrow>
              if debtor_id d \<noteq> uid actor then (Inl Forbidden, sess, db)
              else if m = POST then
                (case posted_proof of
                   None \<Rightarrow> (Inl ValidationError, sess, db)
                 | Some proof \<Rightarrow>
                    (let a = (case payment_amount sess of None \<Rightarrow> 0 | Some x \<Rightarrow> x);
                         (pid, db1) = Payment_objects_create e
                            ((Payment_init i (uid actor) a Cash)
                               \<lparr>p_status := PaymentPendingConfirmation,
                                debtor_proof := Some proof\<rparr>) db;
                         d1 = d\<lparr>status := AwaitingConfirmation\<rparr>;
                         db2 = db1\<lparr>debts := (debts db1)(i \<mapsto> d1)\<rparr>;
                         db3 = Notification_objects_create (uid actor) ''payment_submitted'' i db2;
                         db4 = Notification_objects_create (creditor_id d1)
                                 ''payment_proof_received'' i db3
                     in (Inr (Redirect ''myapp:payment_success''), clear_session sess, db4)))
              else (Inr (Render ''upload_debtor_proof.html''), sess, db)))"

subsection \<open>Creditor: confirm or reject a cash payment (views.confirm\_cash\_payment)\<close>

text \<open>
  \<open>payment.debt\<close> follows the foreign key; a payment whose debt row is missing
  (the database forbids it) is reported as \<open>NotFound\<close>.
\<close>

definition confirm_cash_payment ::
  "env \<Rightarrow> user \<Rightarrow> http_method \<Rightarrow> nat \<Rightarrow> string \<Rightarrow> store \<Rightarrow> (failure + response) \<times> store" where
  "confirm_cash_payment e actor m pid action db =
     (if account_type actor \<noteq> Creditor then (Inl Forbidden, db)
      else case payments db pid of
        None \<Rightarrow> (Inl NotFound, db)
      | Some p \<Rightarrow>
         (case debts db (debt_id p) of
            None \<Rightarrow> (Inl NotFound, db)
          | Some d \<Rightarrow>
              if creditor_id d \<noteq> uid actor then (Inl Forbidden, db)
              else if p_status p \<noteq> PaymentPendingConfirmation then (Inl InvalidState, db)
              else if m = POST then
                (if action = ''confirm'' then
                   (let p1 = Payment_save e
                               (p\<lparr>p_status := Completed, verified_at := Some (now e),
                                  payment_date := Some (now e)\<rparr>);
                        db1 = db\<lparr>payments := (payments db)(pid \<mapsto> p1)\<rparr>;
                        d1 = d\<lparr>paid_amount := paid_amount d + p_amount p1\<rparr>;
                        d2 = (if balance d1 \<le> 0
                              then d1\<lparr>status := Paid, date_paid := Some (now e)\<rparr>
                              else d1\<lparr>status := Active\<rparr>);
                        db2 = db1\<lparr>debts := (debts db1)(debt_id p \<mapsto> d2)\<rparr>;
                        db3 = attach_receipt e pid db2;
                        db4 = Notification_objects_create (payer_id p1) ''payment_confirmed''
                                (debt_id p) db3
                    in (Inr (Redirect ''myapp:creditor_dashboard''), db4))
                 else if action = ''reject'' then
                   (let p1 = Payment_save e (p\<lparr>p_status := PaymentRejected\<rparr>);
                        db1 = db\<lparr>payments := (payments db)(pid \<mapsto> p1)\<rparr>;
                        d1 = d\<lparr>status := Active\<rparr>;
                        db2 = db1\<lparr>debts := (debts db1)(debt_id p \<mapsto> d1)\<rparr>;
                        db3 = Notification_objects_create (payer_id p1) ''payment_rejected''
                                (debt_id p) db2
                    in (Inr (Redirect ''myapp:creditor_dashboard''), db3))
                 else (Inr (Redirect ''myapp:creditor_dashboard''), db))
              else (Inr (Render ''confirm_cash_payment.html''), db)))"

subsection \<open>Administrator: approve or reject a payment (views.admin\_approve\_payment, views.admin\_reject\_payment)\<close>

text \<open>
  \<open>user_passes_test(is_superuser)\<close> guards both views. The rows of the admin activity
  log are not modelled. In \<open>admin_approve_payment\<close> the debt row is written only by
  \<open>update_payment_status\<close>, in the branch where it saves. Both views end with
  \<open>redirect('admin_payments')\<close>, a name without the namespace of the application; whether
  that name resolves is decided outside these files, and the rows are written before.
\<close>

definition admin_approve_payment ::
  "env \<Rightarrow> user \<Rightarrow> http_method \<Rightarrow> nat \<Rightarrow> store \<Rightarrow> (failure + response) \<times> store" where
  "admin_approve_payment e actor m pid db =
     (if \<not> is_superuser actor then (Inl Forbidden, db)
      else case payments db pid of
        None \<Rightarrow> (Inl NotFound, db)
      | Some p \<Rightarrow>
          if m = POST then
            (let p1 = Payment_save e (p\<lparr>p_status := Completed, verified_at := Some (now e)\<rparr>);
                 db1 = db\<lparr>payments := (payments db)(pid \<mapsto> p1)\<rparr>
             in case debts db1 (debt_id p1) of
                  None \<Rightarrow> (Inl NotFound, db1)
                | Some d \<Rightarrow>
                   (let d1 = d\<lparr>paid_amount := paid_amount d + p_amount p1\<rparr>;
                        (d2, saved) = update_payment_status e d1;
                        db2 = (if saved then db1\<lparr>debts := (debts db1)(debt_id p1 \<mapsto> d2)\<rparr>
                               else db1)
                    in (Inr (Redirect ''admin_payments''), db2)))
          else (Inr (Redirect ''admin_payments''), db))"

definition admin_reject_payment ::
  "env \<Rightarrow> user \<Rightarrow> http_method \<Rightarrow> nat \<Rightarrow> store \<Rightarrow> (failure + response) \<times> store" where
  "admin_reject_payment e actor m pid db =
     (if \<not> is_superuser actor then (Inl Forbidden, db)
      else case payments db pid of
        None \<Rightarrow> (Inl NotFound, db)
      | Some p \<Rightarrow>
          if m = POST then
            (let p1 = Payment_save e (p\<lparr>p_status := PaymentRejected\<rparr>);
                 db1 = db\<lparr>payments := (payments db)(pid \<mapsto> p1)\<rparr>
             in (Inr (Redirect ''admin_payments''), db1))
          else (Inr (Redirect ''admin_payments''), db))"

subsection \<open>Sample data\<close>

text \<open>
  A creditor, a debtor and a superuser; one debt of the debtor to the creditor, given by
  its amount, paid amount and status; a store holding that debt and a table of payments.
\<close>

definition creditor_alice :: user where
  "creditor_alice = \<lparr>uid = 1, username = ''alice'', full_name = ''Alice'',
     account_type = Creditor, is_superuser = False\<rparr>"

definition debtor_bob :: user where
  "debtor_bob = \<lparr>uid = 2, username = ''bob'', full_name = ''Bob'',
     account_type = Debtor, is_superuser = False\<rparr>"

definition admin_root :: user where
  "admin_root = \<lparr>uid = 3, username = ''root'', full_name = ''Root'',
     account_type = Admin, is_superuser = True\<rparr>"

definition env0 :: env where
  "env0 = \<lparr>now = 100, token = [0x3A, 0xF0, 0x00, 0x7C, 0x15, 0xB2, 0x9E, 0x48],
     reportlab_available = False\<rparr>"

definition env1 :: env where
  "env1 = \<lparr>now = 90, token = [0x01, 0x23, 0x45, 0x67, 0x89, 0xAB, 0xCD, 0xEF],
     reportlab_available = False\<rparr>"

definition photo :: upload where
  "photo = \<lparr>file_name = ''receipt.jpg'', file_size = 2048\<rparr>"

definition empty_session :: session where
  "empty_session = \<lparr>payment_debt_id = None, payment_amount = None, payment_method = None\<rparr>"

definition bobs_debt :: "rat \<Rightarrow> rat \<Rightarrow> debt_status \<Rightarrow> debt" where
  "bobs_debt a paid st = \<lparr>creditor_id = 1, debtor_id = 2, dtype = Money, amount = a,
     product_name = [], debt_proof = None, creditor_proof = None, payment_proof = None,
     paid_amount = paid, status = st, date_paid = None\<rparr>"

text \<open>A cash payment as \<open>upload_debtor_proof\<close> leaves it, waiting for the creditor.\<close>

definition cash_proof :: "rat \<Rightarrow> payment" where
  "cash_proof a = \<lparr>debt_id = 1, payer_id = 2, p_amount = a, p_method = Cash,
     debtor_proof = Some photo, p_creditor_proof = None, payment_date = None,
     p_status = PaymentPendingConfirmation, transaction_id = ''TXN-3AF0007C15B29E48'',
     receipt_file = None, verified_at = None\<rparr>"

text \<open>A completed GCash payment as \<open>gcash_payment\<close> leaves it.\<close>

definition gcash_receipt :: "rat \<Rightarrow> payment" where
  "gcash_receipt a = \<lparr>debt_id = 1, payer_id = 2, p_amount = a, p_method = GCash,
     debtor_proof = None, p_creditor_proof = None, payment_date = Some 50,
     p_status = Completed, transaction_id = ''TXN-0123456789ABCDEF'',
     receipt_file = None, verified_at = Some 50\<rparr>"

definition db_of :: "debt \<Rightarrow> (nat \<rightharpoonup> payment) \<Rightarrow> nat \<Rightarrow> store" where
  "db_of d ps n = \<lparr>users = [creditor_alice, debtor_bob, admin_root], debts = [1 \<mapsto> d],
     payments = ps, notifications = [], next_debt_id = 2, next_payment_id = n\<rparr>"

definition bobs_form :: "string \<Rightarrow> debt_form" where
  "bobs_form n = \<lparr>form_creditor_username = n, form_type = Some Money,
     form_amount = Some 1000, form_product_name = [], form_debt_proof = None\<rparr>"

section \<open>Properties\<close>

subsection \<open>Rounding to a float\<close>






text \<open>Whole amounts used below are floats themselves.\<close>

lemma float_of_samples:
  "float_of 0 = 0" "float_of 400 = 400" "float_of 500 = 500" "float_of 600 = 600"
  "float_of 1000 = 1000" "float_of 1200 = 1200" "float_of (- 200) = - 200"
  by code_simp+

text \<open>
  Amounts with cents are not: \<open>float(Decimal('0.30'))\<close>, \<open>float(Decimal('0.20'))\<close> and
  \<open>float(Decimal('0.10'))\<close> are the neighbouring binary fractions.
\<close>

lemma float_of_cents:
  "float_of (3 / 10) = 5404319552844595 / 18014398509481984"
  "float_of (1 / 5) = 3602879701896397 / 18014398509481984"
  "float_of (1 / 10) = 3602879701896397 / 36028797018963968"
  by code_simp+

lemmas fixtures = creditor_alice_def debtor_bob_def admin_root_def env0_def env1_def photo_def
  empty_session_def bobs_debt_def cash_proof_def gcash_receipt_def db_of_def bobs_form_def

lemmas views = mark_as_paid_def submit_payment_def gcash_payment_def upload_debtor_proof_def
  confirm_cash_payment_def admin_approve_payment_def admin_reject_payment_def pay_debt_def
  Payment_objects_create_def Notification_objects_create_def Payment_save_def Payment_init_def
  attach_receipt_def session_debt_id_def clear_session_def update_payment_status_def
  balance_def float_of_samples Let_def

lemmas form_defs = add_debt_def DebtForm_is_valid_def clean_creditor_username_def
  User_objects_get_def clean_debt_proof_def DebtForm_clean_def Notification_objects_create_def
  Let_def

subsection \<open>The balance\<close>



subsection \<open>Payment defaults and the first save\<close>

lemma hex_digit_in: "hex_digit n \<in> set ''0123456789ABCDEF''"
proof -
  have "n mod 16 < length ''0123456789ABCDEF''" by simp
  then show ?thesis unfolding hex_digit_def by (rule nth_mem)
qed

lemma token_hex_upper_hex: "set (token_hex_upper bs) \<subseteq> set ''0123456789ABCDEF''"
proof (induction bs)
  case Nil
  show ?case by simp
next
  case (Cons b bs)
  have "hex_digit (unat b div 16) \<in> set ''0123456789ABCDEF''"
       "hex_digit (unat b mod 16) \<in> set ''0123456789ABCDEF''"
    by (rule hex_digit_in)+
  with Cons show ?case by simp
qed

lemma token_hex_upper_length: "length (token_hex_upper bs) = 2 * length bs"
  by (induction bs) simp_all

text \<open>
  Claim C9. A payment constructed without a status has status \<open>completed\<close>. Its first
  save sets \<open>payment_date\<close> and \<open>verified_at\<close> to the current time and \<open>transaction_id\<close>
  to \<open>TXN-\<close> followed by upper-case hexadecimal digits. A later save of any payment
  keeps a transaction id that is not empty, a payment date that is set and a
  verification date that is set.
\<close>

theorem Payment_defaults_and_first_save:
  "p_status (Payment_init d u a m) = Completed
   \<and> payment_date (Payment_save e (Payment_init d u a m)) = Some (now e)
   \<and> verified_at (Payment_save e (Payment_init d u a m)) = Some (now e)
   \<and> transaction_id (Payment_save e (Payment_init d u a m)) = ''TXN-'' @ token_hex_upper (token e)
   \<and> set (token_hex_upper (token e)) \<subseteq> set ''0123456789ABCDEF''
   \<and> (transaction_id p \<noteq> [] \<longrightarrow> transaction_id (Payment_save e' p) = transaction_id p)
   \<and> (payment_date p \<noteq> None \<longrightarrow> payment_date (Payment_save e' p) = payment_date p)
   \<and> (verified_at p \<noteq> None \<longrightarrow> verified_at (Payment_save e' p) = verified_at p)"
proof -
  have first: "p_status (Payment_init d u a m) = Completed
     \<and> payment_date (Payment_save e (Payment_init d u a m)) = Some (now e)
     \<and> verified_at (Payment_save e (Payment_init d u a m)) = Some (now e)
     \<and> transaction_id (Payment_save e (Payment_init d u a m))
         = ''TXN-'' @ token_hex_upper (token e)"
    by (simp add: Payment_init_def Payment_save_def Let_def)
  have later: "(transaction_id p \<noteq> [] \<longrightarrow> transaction_id (Payment_save e' p) = transaction_id p)
     \<and> (payment_date p \<noteq> None \<longrightarrow> payment_date (Payment_save e' p) = payment_date p)
     \<and> (verified_at p \<noteq> None \<longrightarrow> verified_at (Payment_save e' p) = verified_at p)"
    by (simp add: Payment_save_def Let_def)
  from first later token_hex_upper_hex [of "token e"] show ?thesis by blast
qed

theorem Payment_defaults_and_first_save_witness:
  "transaction_id (Payment_save env0 (Payment_init 1 2 400 Cash)) = ''TXN-3AF0007C15B29E48''
   \<and> transaction_id (Payment_save env0 (Payment_init 1 2 400 Cash)) \<noteq> []
   \<and> payment_date (Payment_save env0 (Payment_init 1 2 400 Cash)) \<noteq> None
   \<and> verified_at (Payment_save env0 (Payment_init 1 2 400 Cash)) \<noteq> None
   \<and> Payment_save (env0\<lparr>now := 200, token := [0xFF]\<rparr>)
        (Payment_save env0 (Payment_init 1 2 400 Cash))
      = Payment_save env0 (Payment_init 1 2 400 Cash)"
  using Payment_defaults_and_first_save
      [of 1 2 400 Cash env0 "Payment_save env0 (Payment_init 1 2 400 Cash)"
          "env0\<lparr>now := 200, token := [0xFF]\<rparr>"]
  by (simp add: Payment_init_def Payment_save_def Let_def env0_def hex_digit_def)

subsection \<open>Over-large amounts: the debtor is refused, the creditor is capped\<close>





subsection \<open>Adding a debt\<close>

text \<open>
  Claim C6. When \<open>add_debt\<close> creates a debt, the posted creditor username is that of an
  existing account whose role is creditor, and the new debt has status
  \<open>pending_confirmation\<close>, that account as creditor and the actor as debtor. When a debtor
  posts a username that no creditor account has, \<open>add_debt\<close> fails with a validation
  error and the store is unchanged.
\<close>

theorem add_debt_needs_creditor_account:
  "(add_debt actor m f db = (Inr (Redirect ''myapp:debtor_dashboard''), db')
      \<longrightarrow> (\<exists>c d. User_objects_get db (form_creditor_username f) = Some c
             \<and> account_type c = Creditor
             \<and> debts db' (next_debt_id db) = Some d \<and> status d = PendingConfirmation
             \<and> creditor_id d = uid c \<and> debtor_id d = uid actor))
   \<and> (account_type actor = Debtor
        \<and> (\<forall>c. User_objects_get db (form_creditor_username f) = Some c
               \<longrightarrow> account_type c \<noteq> Creditor)
      \<longrightarrow> add_debt actor POST f db = (Inl ValidationError, db))"
proof (intro conjI impI)
  assume "add_debt actor m f db = (Inr (Redirect ''myapp:debtor_dashboard''), db')"
  then show "\<exists>c d. User_objects_get db (form_creditor_username f) = Some c
             \<and> account_type c = Creditor
             \<and> debts db' (next_debt_id db) = Some d \<and> status d = PendingConfirmation
             \<and> creditor_id d = uid c \<and> debtor_id d = uid actor"
    by (auto simp: add_debt_def DebtForm_is_valid_def clean_creditor_username_def
        Notification_objects_create_def Let_def
        split: if_splits option.splits sum.splits prod.splits)
next
  assume "account_type actor = Debtor
        \<and> (\<forall>c. User_objects_get db (form_creditor_username f) = Some c
               \<longrightarrow> account_type c \<noteq> Creditor)"
  then show "add_debt actor POST f db = (Inl ValidationError, db)"
    by (auto simp: add_debt_def DebtForm_is_valid_def clean_creditor_username_def Let_def
        split: option.splits)
qed

theorem add_debt_needs_creditor_account_witness:
  "(\<exists>db' c d. add_debt debtor_bob POST (bobs_form ''alice'')
                  (db_of (bobs_debt 500 0 Active) Map.empty 1)
                = (Inr (Redirect ''myapp:debtor_dashboard''), db')
        \<and> User_objects_get (db_of (bobs_debt 500 0 Active) Map.empty 1) ''alice'' = Some c
        \<and> account_type c = Creditor
        \<and> debts db' 2 = Some d \<and> status d = PendingConfirmation)
   \<and> account_type debtor_bob = Debtor
   \<and> User_objects_get (db_of (bobs_debt 500 0 Active) Map.empty 1) ''bob'' = Some debtor_bob
   \<and> account_type debtor_bob \<noteq> Creditor
   \<and> add_debt debtor_bob POST (bobs_form ''bob'') (db_of (bobs_debt 500 0 Active) Map.empty 1)
       = (Inl ValidationError, db_of (bobs_debt 500 0 Active) Map.empty 1)"
proof -
  let ?db = "db_of (bobs_debt 500 0 Active) Map.empty 1"
  have role: "account_type debtor_bob = Debtor" "account_type debtor_bob \<noteq> Creditor"
    by (simp_all add: debtor_bob_def)
  have bob: "User_objects_get ?db ''bob'' = Some debtor_bob"
    by (simp add: User_objects_get_def db_of_def creditor_alice_def debtor_bob_def)
  have nxt: "next_debt_id ?db = 2"
    by (simp add: db_of_def)
  have "\<exists>db'. add_debt debtor_bob POST (bobs_form ''alice'') ?db
           = (Inr (Redirect ''myapp:debtor_dashboard''), db')"
    by (simp add: form_defs fixtures)
  then obtain db' where ok: "add_debt debtor_bob POST (bobs_form ''alice'') ?db
           = (Inr (Redirect ''myapp:debtor_dashboard''), db')" ..
  from add_debt_needs_creditor_account [of debtor_bob POST "bobs_form ''alice''" ?db db'] ok nxt
  have good: "\<exists>c d. User_objects_get ?db ''alice'' = Some c \<and> account_type c = Creditor
             \<and> debts db' 2 = Some d \<and> status d = PendingConfirmation"
    by (auto simp: bobs_form_def)
  from add_debt_needs_creditor_account [of debtor_bob POST "bobs_form ''bob''" ?db] role bob
  have bad: "add_debt debtor_bob POST (bobs_form ''bob'') ?db = (Inl ValidationError, ?db)"
    by (simp add: bobs_form_def)
  from ok good bad role bob show ?thesis by blast
qed

subsection \<open>A cash payment waits for the creditor\<close>

text \<open>
  Claim C7. For a debtor whose session names one of his debts, \<open>upload_debtor_proof\<close>
  with a proof file creates a cash payment with status \<open>pending_confirmation\<close> and sets
  the debt to \<open>awaiting_confirmation\<close>; the paid amount, the amount and the balance of
  the debt stay as they were.
\<close>

theorem upload_debtor_proof_keeps_paid_amount:
  assumes "account_type actor = Debtor" "session_debt_id sess = Some i"
    "debts db i = Some d" "debtor_id d = uid actor"
  shows "\<exists>db' p d'. upload_debtor_proof e actor POST (Some pf) sess db
            = (Inr (Redirect ''myapp:payment_success''), clear_session sess, db')
        \<and> payments db' (next_payment_id db) = Some p
        \<and> debt_id p = i \<and> p_method p = Cash \<and> p_status p = PaymentPendingConfirmation
        \<and> debtor_proof p = Some pf
        \<and> debts db' i = Some d' \<and> status d' = AwaitingConfirmation
        \<and> paid_amount d' = paid_amount d \<and> amount d' = amount d \<and> balance d' = balance d"
  using assms
  by (simp add: upload_debtor_proof_def Let_def Payment_objects_create_def
      Notification_objects_create_def Payment_save_def Payment_init_def balance_def)

theorem upload_debtor_proof_keeps_paid_amount_witness:
  "account_type debtor_bob = Debtor
   \<and> session_debt_id \<lparr>payment_debt_id = Some 1, payment_amount = Some 400,
                       payment_method = Some ''cash''\<rparr> = Some 1
   \<and> (\<exists>db' p d'. upload_debtor_proof env0 debtor_bob POST (Some photo)
            \<lparr>payment_debt_id = Some 1, payment_amount = Some 400, payment_method = Some ''cash''\<rparr>
            (db_of (bobs_debt 1000 0 Active) Map.empty 1)
          = (Inr (Redirect ''myapp:payment_success''), empty_session, db')
        \<and> payments db' 1 = Some p \<and> p_amount p = 400
        \<and> p_status p = PaymentPendingConfirmation
        \<and> debts db' 1 = Some d' \<and> status d' = AwaitingConfirmation
        \<and> paid_amount d' = 0 \<and> amount d' = 1000 \<and> balance d' = 1000)"
proof -
  have h: "account_type debtor_bob = Debtor"
    "session_debt_id \<lparr>payment_debt_id = Some 1, payment_amount = Some 400,
                       payment_method = Some ''cash''\<rparr> = Some 1"
    "debts (db_of (bobs_debt 1000 0 Active) Map.empty 1) 1 = Some (bobs_debt 1000 0 Active)"
    "debtor_id (bobs_debt 1000 0 Active) = uid debtor_bob"
    by (simp_all add: fixtures session_debt_id_def)
  show ?thesis
    using h(1,2) upload_debtor_proof_keeps_paid_amount [OF h, of env0 photo]
    by (simp add: views fixtures hex_digit_def)
qed

subsection \<open>Confirming and rejecting a cash payment\<close>

text \<open>
  What the creditor's view does for a payment that waits for confirmation: confirming
  adds exactly the amount of the payment, rejecting returns the debt to \<open>active\<close>, and
  a payment in any other status is refused before anything is written.
\<close>

lemma Payment_save_keeps:
  "p_amount (Payment_save e p) = p_amount p"
  "p_status (Payment_save e p) = p_status p"
  "debt_id (Payment_save e p) = debt_id p"
  "payer_id (Payment_save e p) = payer_id p"
  by (simp_all add: Payment_save_def Let_def)

lemma Notification_objects_create_tables:
  "debts (Notification_objects_create u t i db) = debts db"
  "payments (Notification_objects_create u t i db) = payments db"
  by (simp_all add: Notification_objects_create_def)

lemma attach_receipt_debts: "debts (attach_receipt e pid db) = debts db"
  by (simp add: attach_receipt_def split: option.splits)

lemma attach_receipt_status:
  assumes "payments db pid = Some p"
  shows "\<exists>p'. payments (attach_receipt e pid db) pid = Some p' \<and> p_status p' = p_status p
           \<and> p_amount p' = p_amount p"
  using assms by (simp add: attach_receipt_def Payment_save_keeps)

lemma confirm_cash_payment_adds_amount:
  assumes "account_type actor = Creditor" "payments db pid = Some p"
    "debts db (debt_id p) = Some d" "creditor_id d = uid actor"
    "p_status p = PaymentPendingConfirmation"
  shows "\<exists>db' p' d'. confirm_cash_payment e actor POST pid ''confirm'' db
            = (Inr (Redirect ''myapp:creditor_dashboard''), db')
        \<and> payments db' pid = Some p' \<and> p_status p' = Completed
        \<and> debts db' (debt_id p) = Some d'
        \<and> paid_amount d' = paid_amount d + p_amount p"
proof -
  define p1 where "p1 = Payment_save e
      (p\<lparr>p_status := Completed, verified_at := Some (now e), payment_date := Some (now e)\<rparr>)"
  define d1 where "d1 = d\<lparr>paid_amount := paid_amount d + p_amount p1\<rparr>"
  define d2 where "d2 = (if balance d1 \<le> 0
      then d1\<lparr>status := Paid, date_paid := Some (now e)\<rparr> else d1\<lparr>status := Active\<rparr>)"
  define db2 where "db2 = db\<lparr>payments := (payments db)(pid \<mapsto> p1),
      debts := (debts db)(debt_id p \<mapsto> d2)\<rparr>"
  define db4 where "db4 = Notification_objects_create (payer_id p1) ''payment_confirmed''
      (debt_id p) (attach_receipt e pid db2)"
  have p1: "p_amount p1 = p_amount p" "p_status p1 = Completed"
    by (simp_all add: p1_def Payment_save_keeps)
  have run: "confirm_cash_payment e actor POST pid ''confirm'' db
      = (Inr (Redirect ''myapp:creditor_dashboard''), db4)"
    using assms
    by (simp add: confirm_cash_payment_def Let_def db4_def db2_def d2_def d1_def p1_def)
  have "payments db2 pid = Some p1" by (simp add: db2_def)
  from attach_receipt_status [OF this, of e] p1
  obtain p' where p': "payments db4 pid = Some p'" "p_status p' = Completed"
    by (auto simp: db4_def Notification_objects_create_tables)
  have d': "debts db4 (debt_id p) = Some d2"
    by (simp add: db4_def Notification_objects_create_tables attach_receipt_debts db2_def)
  have "paid_amount d2 = paid_amount d + p_amount p"
    by (simp add: d2_def d1_def p1)
  with run p' d' show ?thesis by blast
qed

lemma confirm_cash_payment_only_pending:
  assumes "account_type actor = Creditor" "payments db pid = Some p"
    "debts db (debt_id p) = Some d" "creditor_id d = uid actor"
    "p_status p \<noteq> PaymentPendingConfirmation"
  shows "confirm_cash_payment e actor m pid action db = (Inl InvalidState, db)"
  using assms by (simp add: confirm_cash_payment_def)

lemma confirm_cash_payment_reject_active:
  assumes "account_type actor = Creditor" "payments db pid = Some p"
    "debts db (debt_id p) = Some d" "creditor_id d = uid actor"
    "p_status p = PaymentPendingConfirmation"
  shows "\<exists>db' p' d'. confirm_cash_payment e actor POST pid ''reject'' db
            = (Inr (Redirect ''myapp:creditor_dashboard''), db')
        \<and> payments db' pid = Some p' \<and> p_status p' = PaymentRejected
        \<and> debts db' (debt_id p) = Some d' \<and> status d' = Active
        \<and> paid_amount d' = paid_amount d \<and> amount d' = amount d"
  using assms
  by (simp add: confirm_cash_payment_def Let_def Payment_save_def
      Notification_objects_create_def)

text \<open>The admin rejection never writes to the table of debts.\<close>

lemma admin_reject_payment_debts: "debts (snd (admin_reject_payment e actor m pid db)) = debts db"
proof (cases "payments db pid")
  case None
  then show ?thesis by (simp add: admin_reject_payment_def)
next
  case (Some p)
  then show ?thesis by (simp add: admin_reject_payment_def Let_def)
qed

text \<open>
  Claim C2. The creditor's view adds the amount of a waiting payment once and refuses a
  completed one (\<open>confirm_cash_payment_adds_amount\<close>, \<open>confirm_cash_payment_only_pending\<close>);
  the admin approval path does neither. \<open>admin_approve_payment\<close> has no test of the
  payment's status:
  applied to a GCash payment of 500 that is already completed and counted in
  \<open>paid_amount = 500\<close>, it answers with the redirect of success and the debt of 1000 is
  stored with \<open>paid_amount = 1000\<close> and status \<open>paid\<close>. And it saves the debt only inside
  \<open>update_payment_status\<close>: applied to a waiting cash payment of 400 on a debt that is
  \<open>awaiting_confirmation\<close>, it completes the payment while the stored \<open>paid_amount\<close>
  stays 0.
\<close>

theorem admin_approve_payment_counts_completed_again:
  "admin_approve_payment env0 admin_root POST 1
        (db_of (bobs_debt 1000 500 Active) [1 \<mapsto> gcash_receipt 500] 2)
      = (Inr (Redirect ''admin_payments''),
         db_of ((bobs_debt 1000 1000 Paid)\<lparr>date_paid := Some 100\<rparr>)
               [1 \<mapsto> (gcash_receipt 500)\<lparr>verified_at := Some 100\<rparr>] 2)
   \<and> admin_approve_payment env0 admin_root POST 1
        (db_of (bobs_debt 1000 0 AwaitingConfirmation) [1 \<mapsto> cash_proof 400] 2)
      = (Inr (Redirect ''admin_payments''),
         db_of (bobs_debt 1000 0 AwaitingConfirmation)
               [1 \<mapsto> (cash_proof 400)\<lparr>p_status := Completed, payment_date := Some 100,
                      verified_at := Some 100\<rparr>] 2)"
  by (simp add: views fixtures)

text \<open>
  Claim C4. The creditor's rejection returns the debt to \<open>active\<close>
  (\<open>confirm_cash_payment_reject_active\<close>); the admin rejection does not touch the debt.
  \<open>admin_reject_payment\<close> on a waiting cash payment stores the payment as rejected and
  leaves the debt \<open>awaiting_confirmation\<close>.
\<close>

theorem admin_reject_payment_keeps_debt_status:
  "admin_reject_payment env0 admin_root POST 1
        (db_of (bobs_debt 1000 0 AwaitingConfirmation) [1 \<mapsto> cash_proof 400] 2)
      = (Inr (Redirect ''admin_payments''),
         db_of (bobs_debt 1000 0 AwaitingConfirmation)
               [1 \<mapsto> (cash_proof 400)\<lparr>p_status := PaymentRejected\<rparr>] 2)"
  by (simp add: views fixtures)

subsection \<open>The paid amount and the amount\<close>

text \<open>\<open>mark_as_paid\<close> never records more than the balance.\<close>

lemma mark_as_paid_at_most_balance:
  assumes "debts db i = Some d"
    "mark_as_paid e actor POST i pa (Some pf) db = (Inr r, db')"
  shows "\<exists>p. payments db' (next_payment_id db) = Some p \<and> p_amount p \<le> balance d"
  using assms
  by (auto simp: mark_as_paid_def Let_def Payment_objects_create_def
      Notification_objects_create_def Payment_save_def Payment_init_def
      split: if_splits amount_field.splits)

text \<open>
  Two cash payments of 600 against one debt of 1000: each passes the test of
  \<open>submit_payment\<close>, because the balance does not move before the creditor confirms.
  After the first confirmation the debt has \<open>paid_amount = 600\<close> and the second payment
  still waits.
\<close>

lemma two_cash_proofs_reachable:
  "(let (r1, s1, db1) = submit_payment debtor_bob POST 1 ''cash'' (Parsed 600) empty_session
                           (db_of (bobs_debt 1000 0 Active) Map.empty 1);
        (r2, s2, db2) = upload_debtor_proof env1 debtor_bob POST (Some photo) s1 db1;
        (r3, s3, db3) = submit_payment debtor_bob POST 1 ''cash'' (Parsed 600) s2 db2;
        (r4, s4, db4) = upload_debtor_proof env0 debtor_bob POST (Some photo) s3 db3;
        (r5, db5) = confirm_cash_payment env1 creditor_alice POST 1 ''confirm'' db4
    in (r1, r2, r3, r4, r5, debts db5 1, payments db5 2, next_payment_id db5))
   = (Inr (Redirect ''myapp:upload_debtor_proof''), Inr (Redirect ''myapp:payment_success''),
      Inr (Redirect ''myapp:upload_debtor_proof''), Inr (Redirect ''myapp:payment_success''),
      Inr (Redirect ''myapp:creditor_dashboard''),
      Some (bobs_debt 1000 600 Active), Some (cash_proof 600), 3)"
  by (simp add: views fixtures hex_digit_def)

text \<open>
  Claim C1. \<open>submit_payment\<close> refuses an amount above the balance and \<open>mark_as_paid\<close>
  caps it; \<open>confirm_cash_payment\<close> does neither. It adds the amount of the payment
  without looking at the balance: on a debt of 1000 with \<open>paid_amount = 600\<close>
  (the invariant holds) and a waiting cash payment of 600, confirming stores
  \<open>paid_amount = 1200\<close>, above the amount.
\<close>

theorem confirm_cash_payment_exceeds_amount:
  "debts (db_of (bobs_debt 1000 600 Active) [2 \<mapsto> cash_proof 600] 3) 1
      = Some (bobs_debt 1000 600 Active)
   \<and> paid_amount (bobs_debt 1000 600 Active) \<le> amount (bobs_debt 1000 600 Active)
   \<and> confirm_cash_payment env0 creditor_alice POST 2 ''confirm''
        (db_of (bobs_debt 1000 600 Active) [2 \<mapsto> cash_proof 600] 3)
      = (Inr (Redirect ''myapp:creditor_dashboard''),
         (db_of ((bobs_debt 1000 1200 Paid)\<lparr>date_paid := Some 100\<rparr>)
               [2 \<mapsto> (cash_proof 600)\<lparr>p_status := Completed, payment_date := Some 100,
                                        verified_at := Some 100\<rparr>] 3)
           \<lparr>notifications := [\<lparr>n_user = 2, notification_type = ''payment_confirmed'',
                                related_debt = Some 1\<rparr>]\<rparr>)
   \<and> amount ((bobs_debt 1000 1200 Paid)\<lparr>date_paid := Some 100\<rparr>)
       < paid_amount ((bobs_debt 1000 1200 Paid)\<lparr>date_paid := Some 100\<rparr>)"
  by (simp add: views fixtures)

subsection \<open>Paying a rejected debt\<close>

text \<open>
  Claim C8. \<open>pay_debt\<close> refuses a rejected debt, but \<open>submit_payment\<close> and
  \<open>gcash_payment\<close> do not test the status of the debt. For a rejected debt of 500,
  \<open>submit_payment\<close> with method gcash and amount 500 stores the payment in the session
  and redirects to the gateway, and \<open>gcash_payment\<close> then creates a completed payment
  of 500 and stores the debt as \<open>paid\<close> with \<open>paid_amount = 500\<close>.
\<close>

theorem rejected_debt_accepts_payment:
  "pay_debt debtor_bob 1 (db_of (bobs_debt 500 0 Rejected) Map.empty 1) = Inl InvalidState
   \<and> submit_payment debtor_bob POST 1 ''gcash'' (Parsed 500) empty_session
        (db_of (bobs_debt 500 0 Rejected) Map.empty 1)
      = (Inr (Redirect ''myapp:gcash_payment''),
         \<lparr>payment_debt_id = Some 1, payment_amount = Some 500, payment_method = Some ''gcash''\<rparr>,
         db_of (bobs_debt 500 0 Rejected) Map.empty 1)
   \<and> gcash_payment env0 debtor_bob POST
        \<lparr>payment_debt_id = Some 1, payment_amount = Some 500, payment_method = Some ''gcash''\<rparr>
        (db_of (bobs_debt 500 0 Rejected) Map.empty 1)
      = (Inr (Redirect ''myapp:payment_success''), empty_session,
         (db_of ((bobs_debt 500 500 Paid)\<lparr>date_paid := Some 100\<rparr>)
            [1 \<mapsto> (gcash_receipt 500)\<lparr>payment_date := Some 100, verified_at := Some 100,
                     transaction_id := ''TXN-3AF0007C15B29E48''\<rparr>] 2)
         \<lparr>notifications :=
            [\<lparr>n_user = 1, notification_type = ''payment_received'', related_debt = Some 1\<rparr>,
             \<lparr>n_user = 2, notification_type = ''payment_success'', related_debt = Some 1\<rparr>]\<rparr>)"
  by (simp add: views fixtures hex_digit_def)

end
